theory Spec2Isabelle
  imports Complex_Main
begin

section \<open>Python values\<close>

text \<open>
  A Python \<open>str\<close> is a sequence of Unicode code points, so a string is a list of code
  points; \<open>py\<close> injects an ASCII literal. The values that cross the boundaries of the
  program (the vector store's response, the language model's completion, chunk metadata)
  are dynamically typed: \<open>None\<close>, floats, strings, lists, mappings with string keys, and
  objects that carry attributes. Scores and embedding components are floats; they are
  only stored, compared with zero and passed on, and are represented by reals.
\<close>

type_synonym py_str = "nat list"

definition py :: "string \<Rightarrow> py_str" where
  "py s = map of_char s"

datatype pyval =
    PNone
  | PFloat real
  | PStr py_str
  | PList "pyval list"
  | PDict "(py_str \<times> pyval) list"
  | PObj "(py_str \<times> pyval) list"

text \<open>
  Exceptions. \<open>BackendError m\<close> is an exception raised by an external collaborator (the
  encoder, the vector store, the language model), \<open>m\<close> being its \<open>str()\<close>; the others
  are raised by the interpreter while the program picks a value apart. All of them are
  instances of \<open>Exception\<close>, which is what the handlers of the program catch.
\<close>

datatype exn =
    BackendError py_str
  | AttributeError
  | TypeError
  | IndexError
  | KeyError
  | ValueError
  | UnicodeEncodeError

text \<open>
  The text the interpreter produces for a value that is not a string (the \<open>repr\<close> of a
  float, of a list, of an object), for a float under the format \<open>.3f\<close> and for an
  exception of its own is not modelled: it is a parameter, as is the set of characters
  that the encoding of the standard output represents. For a string, \<open>str()\<close> and
  \<open>format()\<close> are the identity, and for a collaborator's exception \<open>str()\<close> is its
  message.
\<close>

record runtime =
  str_of :: "pyval \<Rightarrow> py_str"
  message_of :: "exn \<Rightarrow> py_str"
  float_3f :: "real \<Rightarrow> py_str"
  encodable :: "nat \<Rightarrow> bool"

definition py_format :: "runtime \<Rightarrow> pyval \<Rightarrow> py_str" where
  "py_format rt v = (case v of PStr s \<Rightarrow> s | _ \<Rightarrow> str_of rt v)"

definition exn_str :: "runtime \<Rightarrow> exn \<Rightarrow> py_str" where
  "exn_str rt e = (case e of BackendError m \<Rightarrow> m | _ \<Rightarrow> message_of rt e)"

text \<open>Truth value testing: \<open>None\<close>, zero and empty containers are false.\<close>

fun truthy :: "pyval \<Rightarrow> bool" where
  "truthy PNone = False"
| "truthy (PFloat x) = (x \<noteq> 0)"
| "truthy (PStr s) = (s \<noteq> [])"
| "truthy (PList xs) = (xs \<noteq> [])"
| "truthy (PDict kvs) = (kvs \<noteq> [])"
| "truthy (PObj attrs) = True"

text \<open>\<open>a or b\<close>: the left operand when it is true, the right one otherwise.\<close>

definition py_or :: "pyval \<Rightarrow> pyval \<Rightarrow> pyval" where
  "py_or a b = (if truthy a then a else b)"

fun is_dict :: "pyval \<Rightarrow> bool" where
  "is_dict (PDict kvs) = True"
| "is_dict _ = False"


text \<open>
  \<open>getattr(v, name, default)\<close> and \<open>hasattr(v, name)\<close>, for the attribute names the
  program reads (\<open>score\<close>, \<open>metadata\<close>, \<open>choices\<close>, \<open>message\<close>, \<open>content\<close>): none of
  the built-in types has one of them, so only an object can.
\<close>

fun py_getattr :: "pyval \<Rightarrow> py_str \<Rightarrow> pyval \<Rightarrow> pyval" where
  "py_getattr (PObj attrs) name d = (case map_of attrs name of Some v \<Rightarrow> v | None \<Rightarrow> d)"
| "py_getattr _ name d = d"

fun py_hasattr :: "pyval \<Rightarrow> py_str \<Rightarrow> bool" where
  "py_hasattr (PObj attrs) name = (map_of attrs name \<noteq> None)"
| "py_hasattr _ name = False"

text \<open>\<open>v.name\<close>: raises AttributeError where the attribute is missing.\<close>

fun py_attr :: "pyval \<Rightarrow> py_str \<Rightarrow> exn + pyval" where
  "py_attr (PObj attrs) name = (case map_of attrs name of Some v \<Rightarrow> Inr v | None \<Rightarrow> Inl AttributeError)"
| "py_attr _ name = Inl AttributeError"

text \<open>
  \<open>v.get(key, default)\<close>: a mapping looks the key up; any other value of the model has
  no callable \<open>get\<close>, and the call raises.
\<close>

fun py_get :: "pyval \<Rightarrow> py_str \<Rightarrow> pyval \<Rightarrow> exn + pyval" where
  "py_get (PDict kvs) key d = Inr (case map_of kvs key of Some v \<Rightarrow> v | None \<Rightarrow> d)"
| "py_get (PObj attrs) key d =
     (if map_of attrs (py ''get'') = None then Inl AttributeError else Inl TypeError)"
| "py_get _ key d = Inl AttributeError"

text \<open>\<open>d.get(key, default)\<close> on a value known to be a mapping.\<close>

definition dict_get :: "(py_str \<times> pyval) list \<Rightarrow> py_str \<Rightarrow> pyval \<Rightarrow> pyval" where
  "dict_get kvs key d = (case map_of kvs key of Some v \<Rightarrow> v | None \<Rightarrow> d)"

text \<open>\<open>v[0]\<close>.\<close>

fun py_item0 :: "pyval \<Rightarrow> exn + pyval" where
  "py_item0 (PList xs) = (case xs of [] \<Rightarrow> Inl IndexError | x # _ \<Rightarrow> Inr x)"
| "py_item0 (PStr s) = (case s of [] \<Rightarrow> Inl IndexError | c # _ \<Rightarrow> Inr (PStr [c]))"
| "py_item0 (PDict kvs) = Inl KeyError"
| "py_item0 _ = Inl TypeError"

text \<open>\<open>for x in v\<close>: the items of a list, the characters of a string, the keys of a mapping.\<close>

fun py_iter :: "pyval \<Rightarrow> exn + pyval list" where
  "py_iter (PList xs) = Inr xs"
| "py_iter (PStr s) = Inr (map (\<lambda>c. PStr [c]) s)"
| "py_iter (PDict kvs) = Inr (map (\<lambda>kv. PStr (fst kv)) kvs)"
| "py_iter _ = Inl TypeError"

text \<open>
  \<open>str.isspace\<close> of one character and \<open>str.strip()\<close>: the ASCII white space
  (U+0009 to U+000D, U+001C to U+0020) and the Unicode one.
\<close>

definition py_isspace :: "nat \<Rightarrow> bool" where
  "py_isspace c \<longleftrightarrow>
     (9 \<le> c \<and> c \<le> 13) \<or> (28 \<le> c \<and> c \<le> 32) \<or> c = 133 \<or> c = 160 \<or> c = 5760
     \<or> (8192 \<le> c \<and> c \<le> 8202) \<or> c = 8232 \<or> c = 8233 \<or> c = 8239 \<or> c = 8287 \<or> c = 12288"

definition py_strip :: "py_str \<Rightarrow> py_str" where
  "py_strip s = rev (dropWhile py_isspace (rev (dropWhile py_isspace s)))"

text \<open>\<open>v.strip()\<close> on a dynamically typed value.\<close>

fun py_strip_val :: "pyval \<Rightarrow> exn + py_str" where
  "py_strip_val (PStr s) = Inr (py_strip s)"
| "py_strip_val (PObj attrs) =
     (if map_of attrs (py ''strip'') = None then Inl AttributeError else Inl TypeError)"
| "py_strip_val _ = Inl AttributeError"

text \<open>\<open>sep.join(items)\<close> raises TypeError at an item that is not a string.\<close>

fun py_join :: "py_str \<Rightarrow> pyval list \<Rightarrow> exn + py_str" where
  "py_join sep [] = Inr []"
| "py_join sep [PStr s] = Inr s"
| "py_join sep (PStr s # v # vs) =
     (case py_join sep (v # vs) of Inl e \<Rightarrow> Inl e | Inr r \<Rightarrow> Inr (s @ sep @ r))"
| "py_join sep (_ # vs) = Inl TypeError"

text \<open>\<open>sep.join(items)\<close> on items known to be strings, and \<open>len(v)\<close>.\<close>

fun str_join :: "py_str \<Rightarrow> py_str list \<Rightarrow> py_str" where
  "str_join sep [] = []"
| "str_join sep [s] = s"
| "str_join sep (s # t # ts) = s @ sep @ str_join sep (t # ts)"

fun py_len :: "pyval \<Rightarrow> exn + nat" where
  "py_len (PList xs) = Inr (length xs)"
| "py_len (PStr s) = Inr (length s)"
| "py_len (PDict kvs) = Inr (length kvs)"
| "py_len _ = Inl TypeError"

text \<open>Formatting with the specification \<open>.3f\<close> succeeds on a number only.\<close>

fun format_3f :: "runtime \<Rightarrow> pyval \<Rightarrow> exn + py_str" where
  "format_3f rt (PFloat x) = Inr (float_3f rt x)"
| "format_3f rt (PStr s) = Inl ValueError"
| "format_3f rt _ = Inl TypeError"

text \<open>\<open>v[:8]\<close> and \<open>d.update({key: value})\<close>.\<close>

fun py_slice8 :: "pyval \<Rightarrow> exn + pyval" where
  "py_slice8 (PStr s) = Inr (PStr (take 8 s))"
| "py_slice8 (PList xs) = Inr (PList (take 8 xs))"
| "py_slice8 _ = Inl TypeError"

fun dict_set :: "(py_str \<times> pyval) list \<Rightarrow> py_str \<Rightarrow> pyval \<Rightarrow> (py_str \<times> pyval) list" where
  "dict_set [] key v = [(key, v)]"
| "dict_set (kv # kvs) key v = (if fst kv = key then (key, v) # kvs else kv # dict_set kvs key v)"

text \<open>
  Sequencing of steps that may raise: the first exception ends the computation, as it
  leaves the enclosing \<open>try\<close> block.
\<close>

definition and_then :: "exn + 'a \<Rightarrow> ('a \<Rightarrow> exn + 'b) \<Rightarrow> exn + 'b" where
  "and_then r f = (case r of Inl e \<Rightarrow> Inl e | Inr v \<Rightarrow> f v)"

fun map_exn :: "('a \<Rightarrow> exn + 'b) \<Rightarrow> 'a list \<Rightarrow> exn + 'b list" where
  "map_exn f [] = Inr []"
| "map_exn f (x # xs) = and_then (f x) (\<lambda>y. and_then (map_exn f xs) (\<lambda>ys. Inr (y # ys)))"

text \<open>
  \<open>print(text)\<close> writes to the standard output, which raises UnicodeEncodeError for a
  text with a character its encoding does not have (the cross mark on a terminal of a
  legacy code page, a lone surrogate on UTF-8). The newline that \<open>print\<close> appends is in
  every encoding. What is written is not kept; whether the write raises is.
\<close>

definition py_print :: "runtime \<Rightarrow> py_str \<Rightarrow> exn + unit" where
  "py_print rt text = (if list_all (encodable rt) text then Inr () else Inl UnicodeEncodeError)"

section \<open>Collaborators and the state of the process\<close>

text \<open>
  The encoder, the vector index and the language-model client are external: each is a
  function from the arguments of the call to its result or the exception it raises.
  The state of the process is the module global \<open>_embedding_model\<close> and, to state which
  calls a run makes, the log of the calls made to the collaborators, oldest first.
\<close>

type_synonym encoder = "py_str \<Rightarrow> exn + real list"

datatype query_arg = ByVector "real list" | ByData py_str

type_synonym index = "query_arg \<Rightarrow> int \<Rightarrow> exn + pyval"

record chat_request =
  model :: py_str
  messages :: "(py_str \<times> py_str) list"
  temperature :: real
  max_tokens :: int

type_synonym groq = "chat_request \<Rightarrow> exn + pyval"

datatype call =
    LoadModel py_str
  | Encode py_str
  | Query query_arg int
  | ChatCreate chat_request

record world =
  embedding_model :: "encoder option"
  calls :: "call list"

definition log_call :: "call \<Rightarrow> world \<Rightarrow> world" where
  "log_call c w = w\<lparr>calls := calls w @ [c]\<rparr>"

text \<open>\<open>print(text); return value\<close>, in a function that is not inside a \<open>try\<close> there.\<close>

definition print_then :: "runtime \<Rightarrow> py_str \<Rightarrow> 'a \<Rightarrow> world \<Rightarrow> (exn + 'a) \<times> world" where
  "print_then rt text v w = (case py_print rt text of Inl e \<Rightarrow> (Inl e, w) | Inr u \<Rightarrow> (Inr v, w))"

text \<open>The marks the first program prints: U+274C, U+2705 and U+1F9E0.\<close>

definition CROSS :: py_str where
  "CROSS = [10060]"

definition CHECK :: py_str where
  "CHECK = [9989]"

definition BRAIN :: py_str where
  "BRAIN = [129504]"

section \<open>digitaltwin\_rag.py, first program: the embedder\<close>

definition MODEL_NAME :: py_str where
  "MODEL_NAME = py ''sentence-transformers/all-MiniLM-L6-v2''"

text \<open>
  \<open>get_embedding_model\<close>: \<open>SentenceTransformer\<close> is None when the package could not be
  imported; otherwise it is the constructor, which may raise. The global is assigned
  before the success is printed, so a print that raises there leaves the model set while
  the handler reports a failure and returns None. The handler's own print, and the one
  for the missing package, are outside any \<open>try\<close>.
\<close>

definition get_embedding_model ::
  "runtime \<Rightarrow> (py_str \<Rightarrow> exn + encoder) option \<Rightarrow> world \<Rightarrow> (exn + encoder option) \<times> world" where
  "get_embedding_model rt SentenceTransformer w =
     (case embedding_model w of
        Some m \<Rightarrow> (Inr (Some m), w)
      | None \<Rightarrow>
          (case SentenceTransformer of
             None \<Rightarrow> print_then rt (CROSS @ py '' sentence-transformers not installed'') None w
           | Some ctor \<Rightarrow>
               (let w1 = log_call (LoadModel MODEL_NAME) w in
                case ctor MODEL_NAME of
                  Inl e \<Rightarrow>
                    print_then rt (CROSS @ py '' Failed to load embedding model: '' @ exn_str rt e)
                      None w1
                | Inr m \<Rightarrow>
                    (let w2 = w1\<lparr>embedding_model := Some m\<rparr> in
                     case py_print rt (CHECK @ py '' Embedding model loaded'') of
                       Inl e \<Rightarrow>
                         print_then rt
                           (CROSS @ py '' Failed to load embedding model: '' @ exn_str rt e) None w2
                     | Inr u \<Rightarrow> (Inr (Some m), w2)))))"

text \<open>
  \<open>embed_text\<close>: None when no model is available or the encoder raises; otherwise the
  embedding, padded with zeros when it is shorter than 1536. The model is fetched
  outside the \<open>try\<close>, and the handler prints.
\<close>

definition embed_text ::
  "runtime \<Rightarrow> (py_str \<Rightarrow> exn + encoder) option \<Rightarrow> py_str \<Rightarrow> world
     \<Rightarrow> (exn + real list option) \<times> world" where
  "embed_text rt SentenceTransformer text w =
     (case get_embedding_model rt SentenceTransformer w of
        (Inl e, w1) \<Rightarrow> (Inl e, w1)
      | (Inr None, w1) \<Rightarrow> (Inr None, w1)
      | (Inr (Some m), w1) \<Rightarrow>
          (let w2 = log_call (Encode text) w1 in
           case m text of
             Inl e \<Rightarrow> print_then rt (CROSS @ py '' Error generating embedding: '' @ exn_str rt e) None w2
           | Inr embedding \<Rightarrow>
               (Inr (Some (if length embedding < 1536
                           then embedding @ replicate (1536 - length embedding) 0
                           else embedding)), w2)))"

section \<open>digitaltwin\_rag.py, first program: the vector-store gateway\<close>

text \<open>
  A normalized hit is the dictionary \<open>{'score': .., 'metadata': .., 'text': ..}\<close> that
  \<open>query_vectors\<close> builds; its three keys are the fields of a record.
\<close>

record hit =
  hit_score :: pyval
  hit_metadata :: pyval
  hit_text :: pyval

text \<open>
  \<open>a or b\<close> where evaluating an operand may raise: \<open>b\<close> is evaluated only when \<open>a\<close> is
  false.
\<close>

definition or_else :: "exn + pyval \<Rightarrow> exn + pyval \<Rightarrow> exn + pyval" where
  "or_else a b = (case a of Inl e \<Rightarrow> Inl e | Inr v \<Rightarrow> if truthy v then Inr v else b)"

text \<open>\<open>(h.get(key) if isinstance(h, dict) else None)\<close>\<close>

definition get_if_dict :: "pyval \<Rightarrow> py_str \<Rightarrow> pyval" where
  "get_if_dict h key = (case h of PDict kvs \<Rightarrow> dict_get kvs key PNone | _ \<Rightarrow> PNone)"

text \<open>The body of the normalization loop: lines 200 and 201, then lines 202 and 203.\<close>

definition item_score :: "pyval \<Rightarrow> pyval" where
  "item_score h = py_or (py_getattr h (py ''score'') PNone) (get_if_dict h (py ''score''))"

definition item_metadata :: "pyval \<Rightarrow> pyval" where
  "item_metadata h =
     py_or (py_or (py_getattr h (py ''metadata'') PNone) (get_if_dict h (py ''metadata'')))
           (PDict [])"

definition normalize_hit :: "pyval \<Rightarrow> exn + hit" where
  "normalize_hit h =
     (let score = item_score h;
          metadata = item_metadata h
      in case or_else (py_get metadata (py ''content'') PNone)
                (or_else (py_get metadata (py ''text'') PNone)
                         (py_get metadata (py ''title'') (PStr []))) of
           Inl e \<Rightarrow> Inl e
         | Inr text \<Rightarrow> Inr \<lparr>hit_score = score, hit_metadata = metadata, hit_text = text\<rparr>)"

fun normalize_all :: "pyval list \<Rightarrow> exn + hit list" where
  "normalize_all [] = Inr []"
| "normalize_all (h # hs) =
     and_then (normalize_hit h) (\<lambda>n. and_then (normalize_all hs) (\<lambda>ns. Inr (n # ns)))"

text \<open>
  Lines 192 to 196: the sequence to normalize. A mapping gives
  \<open>res.get('results') or res.get('matches') or []\<close>, a list itself, anything else \<open>[]\<close>.
\<close>

definition select_hits :: "pyval \<Rightarrow> pyval" where
  "select_hits res =
     (case res of
        PDict kvs \<Rightarrow> py_or (py_or (dict_get kvs (py ''results'') PNone)
                                  (dict_get kvs (py ''matches'') PNone)) (PList [])
      | PList xs \<Rightarrow> PList xs
      | _ \<Rightarrow> PList [])"

text \<open>The \<open>try\<close> block of \<open>query_vectors\<close> (lines 187 to 204).\<close>

definition query_vectors_try :: "index \<Rightarrow> real list \<Rightarrow> int \<Rightarrow> exn + hit list" where
  "query_vectors_try idx query_embedding top_k =
     and_then (idx (ByVector query_embedding) top_k) (\<lambda>res.
     and_then (py_iter (select_hits res)) (\<lambda>hits.
     normalize_all hits))"

text \<open>
  \<open>query_vectors\<close>. The embedding is computed outside the \<open>try\<close>; the print for a
  missing embedding and the print of the handler are not inside one either.
\<close>

definition query_vectors ::
  "runtime \<Rightarrow> (py_str \<Rightarrow> exn + encoder) option \<Rightarrow> index option \<Rightarrow> py_str \<Rightarrow> int \<Rightarrow> world
     \<Rightarrow> (exn + hit list) \<times> world" where
  "query_vectors rt SentenceTransformer index query_text top_k w =
     (case index of
        None \<Rightarrow> (Inr [], w)
      | Some idx \<Rightarrow>
          (case embed_text rt SentenceTransformer query_text w of
             (Inl e, w1) \<Rightarrow> (Inl e, w1)
           | (Inr None, w1) \<Rightarrow>
               print_then rt (CROSS @ py '' Failed to generate query embedding'') [] w1
           | (Inr (Some query_embedding), w1) \<Rightarrow>
               (let w2 = log_call (Query (ByVector query_embedding) top_k) w1 in
                case query_vectors_try idx query_embedding top_k of
                  Inl e \<Rightarrow>
                    print_then rt (CROSS @ py '' Error querying vectors: '' @ exn_str rt e) [] w2
                | Inr normalized \<Rightarrow> (Inr normalized, w2))))"

section \<open>digitaltwin\_rag.py, first program: the generator\<close>

text \<open>The error marker starts with the cross mark.\<close>

definition ERROR_GENERATING :: py_str where
  "ERROR_GENERATING = CROSS @ py '' Error generating response: ''"

definition SYSTEM_CONTENT :: py_str where
  "SYSTEM_CONTENT =
     py ''You are the digital twin of the user. Answer in first person and only use provided context.''"

text \<open>The arguments of \<open>client.chat.completions.create\<close>: a system and a user message.\<close>

definition groq_request :: "py_str \<Rightarrow> py_str \<Rightarrow> py_str \<Rightarrow> real \<Rightarrow> int \<Rightarrow> chat_request" where
  "groq_request system_content prompt mdl temp max_tok =
     \<lparr>model = mdl,
      messages = [(py ''system'', system_content), (py ''user'', prompt)],
      temperature = temp, max_tokens = max_tok\<rparr>"

text \<open>Lines 224 to 230: the text of the completion, stripped.\<close>

definition completion_text :: "runtime \<Rightarrow> pyval \<Rightarrow> exn + py_str" where
  "completion_text rt completion =
     (if py_hasattr completion (py ''choices'') then
        and_then (py_attr completion (py ''choices'')) (\<lambda>choices.
        and_then (py_item0 choices) (\<lambda>choice.
        and_then (py_attr choice (py ''message'')) (\<lambda>message.
        and_then (py_attr message (py ''content'')) (\<lambda>text.
        py_strip_val text))))
      else if is_dict completion then
        and_then (py_get completion (py ''choices'') (PList [PDict []])) (\<lambda>choices.
        and_then (py_item0 choices) (\<lambda>choice.
        and_then (py_get choice (py ''message'') (PDict [])) (\<lambda>message.
        and_then (py_get message (py ''content'') (PStr [])) (\<lambda>text.
        py_strip_val text))))
      else Inr (py_strip (py_format rt completion)))"

definition generate_response_with_groq ::
  "runtime \<Rightarrow> groq option \<Rightarrow> py_str \<Rightarrow> py_str \<Rightarrow> real \<Rightarrow> int \<Rightarrow> world \<Rightarrow> py_str \<times> world" where
  "generate_response_with_groq rt client prompt mdl temp max_tok w =
     (case client of
        None \<Rightarrow> (CROSS @ py '' Groq client not initialized'', w)
      | Some create \<Rightarrow>
          (let request = groq_request SYSTEM_CONTENT prompt mdl temp max_tok;
               w1 = log_call (ChatCreate request) w
           in case and_then (create request) (completion_text rt) of
                Inl e \<Rightarrow> (ERROR_GENERATING @ exn_str rt e, w1)
              | Inr text \<Rightarrow> (text, w1)))"

section \<open>digitaltwin\_rag.py, first program: the pipeline\<close>

text \<open>
  The body of the context loop of \<open>rag_query\<close> (lines 247 to 255): the item appended
  to \<open>contexts\<close> for one hit, after the print of its title and score.
\<close>

definition context_line :: "runtime \<Rightarrow> hit \<Rightarrow> exn + pyval" where
  "context_line rt h =
     (let score = hit_score h;
          meta = py_or (hit_metadata h) (PDict []) in
      and_then (or_else (Inr (hit_text h))
                 (or_else (py_get meta (py ''content'') PNone)
                   (or_else (py_get meta (py ''text'') PNone) (Inr (PStr []))))) (\<lambda>text.
      and_then (or_else (py_get meta (py ''title'') PNone)
                 (or_else (py_get meta (py ''section'') PNone) (Inr (PStr [])))) (\<lambda>title.
      and_then (py_print rt (py '' - '' @ py_format rt title @ py '' (score=''
                  @ py_format rt score @ py '')'')) (\<lambda>u.
      if truthy title
      then Inr (PStr (py_format rt title @ py '': '' @ py_format rt text))
      else Inr text))))"

fun context_lines :: "runtime \<Rightarrow> hit list \<Rightarrow> exn + pyval list" where
  "context_lines rt [] = Inr []"
| "context_lines rt (h # hs) =
     and_then (context_line rt h) (\<lambda>l. and_then (context_lines rt hs) (\<lambda>ls. Inr (l # ls)))"

text \<open>The prompt of lines 259 to 266.\<close>

definition PROMPT_HEAD :: py_str where
  "PROMPT_HEAD = py ''Based on the information below from my profile, answer the question in first person.\<newline>\<newline>Context:\<newline>''"

definition PROMPT_QUESTION :: py_str where
  "PROMPT_QUESTION = py ''\<newline>\<newline>Question: ''"

definition PROMPT_TAIL :: py_str where
  "PROMPT_TAIL = py ''\<newline>\<newline>If the context does not contain enough detail, say you don'' @ [39]
     @ py ''t have enough information. Keep the answer concise and professional.''"

definition build_prompt :: "py_str \<Rightarrow> py_str \<Rightarrow> py_str" where
  "build_prompt context_block question =
     PROMPT_HEAD @ context_block @ PROMPT_QUESTION @ question @ PROMPT_TAIL"

definition PLEASE_PROVIDE :: py_str where
  "PLEASE_PROVIDE = py ''Please provide a question.''"

definition NOT_FOUND :: py_str where
  "NOT_FOUND = py ''I couldn'' @ [39] @ py ''t find relevant information in the digital twin.''"

text \<open>
  \<open>rag_query\<close>. \<open>default_model\<close> is the module constant \<open>DEFAULT_MODEL\<close>, read from the
  environment at import. Nothing is caught here: an exception of \<open>query_vectors\<close>, of a
  print, of the context loop or of \<open>join\<close> reaches the caller.
\<close>

definition rag_query ::
  "runtime \<Rightarrow> (py_str \<Rightarrow> exn + encoder) option \<Rightarrow> py_str \<Rightarrow> index option \<Rightarrow> groq option
     \<Rightarrow> py_str \<Rightarrow> int \<Rightarrow> world \<Rightarrow> (exn + py_str) \<times> world" where
  "rag_query rt SentenceTransformer default_model index groq_client question top_k w =
     (if question = [] then (Inr PLEASE_PROVIDE, w)
      else
        (case query_vectors rt SentenceTransformer index question top_k w of
           (Inl e, w1) \<Rightarrow> (Inl e, w1)
         | (Inr hits, w1) \<Rightarrow>
             (if hits = [] then (Inr NOT_FOUND, w1)
              else
                (case and_then (py_print rt (BRAIN @ py '' Retrieved contexts:'')) (\<lambda>u.
                      and_then (context_lines rt hits) (py_join (py ''\<newline>\<newline>''))) of
                   Inl e \<Rightarrow> (Inl e, w1)
                 | Inr context_block \<Rightarrow>
                     (case generate_response_with_groq rt groq_client
                             (build_prompt context_block question) default_model (2 / 10) 400 w1 of
                        (answer, w2) \<Rightarrow> (Inr answer, w2))))))"

text \<open>
  The ingestion loop of \<open>setup_vector_database\<close> (lines 126 to 139): the entries
  \<open>(id, text, metadata)\<close> that are upserted for the chunks of the profile document. The
  metadata of an entry is the chunk's own metadata with the title added; the content is
  part of the text only. Without chunks a warning is printed (U+26A0, U+FE0F, and a dash
  U+2014) and nothing is upserted.
\<close>

definition chunk_vector :: "runtime \<Rightarrow> pyval \<Rightarrow> exn + py_str \<times> pyval \<times> pyval" where
  "chunk_vector rt c =
     and_then (or_else (py_get c (py ''id'') PNone)
                (or_else (py_get c (py ''uid'') PNone)
                  (and_then (py_get c (py ''title'') (PStr [])) py_slice8))) (\<lambda>ident.
     and_then (py_get c (py ''title'') (PStr [])) (\<lambda>title.
     and_then (or_else (py_get c (py ''content'') PNone)
                (or_else (py_get c (py ''text'') PNone) (Inr (PStr [])))) (\<lambda>content.
     and_then (py_get c (py ''metadata'') (PDict [])) (\<lambda>md.
     Inr (py_format rt ident,
          (if truthy title
           then PStr (py_format rt title @ py '': '' @ py_format rt content)
           else content),
          PDict (dict_set (case md of PDict kvs \<Rightarrow> kvs | _ \<Rightarrow> []) (py ''title'') title))))))"

definition content_vectors :: "runtime \<Rightarrow> pyval \<Rightarrow> exn + (py_str \<times> pyval \<times> pyval) list" where
  "content_vectors rt data =
     and_then (or_else (py_get data (py ''content_chunks'') PNone)
                (or_else (py_get data (py ''chunks'') PNone) (Inr (PList [])))) (\<lambda>chunks.
     if truthy chunks then and_then (py_iter chunks) (map_exn (chunk_vector rt))
     else and_then (py_print rt ([9888, 65039] @ py '' No content chunks found in JSON ''
                      @ [8212] @ py '' skipping ingestion'')) (\<lambda>u. Inr []))"

section \<open>digitaltwin\_rag.py, second program (lines 300 to 519)\<close>

text \<open>
  The file goes on with a second program that defines \<open>query_vectors\<close>,
  \<open>generate_response_with_groq\<close> and \<open>rag_query\<close> again; they carry the suffix \<open>_v2\<close>
  here. This \<open>query_vectors\<close> sends the text itself and returns the response as it is,
  or None when the call raises (also when \<open>index\<close> is None, where the attribute lookup
  raises before any call is made). Its handler prints.
\<close>

definition query_vectors_v2 ::
  "runtime \<Rightarrow> index option \<Rightarrow> py_str \<Rightarrow> int \<Rightarrow> world \<Rightarrow> (exn + pyval) \<times> world" where
  "query_vectors_v2 rt index query_text top_k w =
     (case index of
        None \<Rightarrow> print_then rt (py '' Error querying vectors: '' @ exn_str rt AttributeError) PNone w
      | Some idx \<Rightarrow>
          (let w1 = log_call (Query (ByData query_text) top_k) w in
           case idx (ByData query_text) top_k of
             Inl e \<Rightarrow> print_then rt (py '' Error querying vectors: '' @ exn_str rt e) PNone w1
           | Inr results \<Rightarrow> (Inr results, w1)))"

definition DEFAULT_MODEL_V2 :: py_str where
  "DEFAULT_MODEL_V2 = py ''llama-3.1-8b-instant''"

definition SYSTEM_CONTENT_V2 :: py_str where
  "SYSTEM_CONTENT_V2 = py ''You are an AI digital twin. Answer questions as if you are the person, speaking in first person about your background, skills, and experience.''"

definition ERROR_GENERATING_V2 :: py_str where
  "ERROR_GENERATING_V2 = py '' Error generating response: ''"

definition generate_response_with_groq_v2 ::
  "runtime \<Rightarrow> groq option \<Rightarrow> py_str \<Rightarrow> py_str \<Rightarrow> world \<Rightarrow> py_str \<times> world" where
  "generate_response_with_groq_v2 rt client prompt mdl w =
     (case client of
        None \<Rightarrow> (ERROR_GENERATING_V2 @ exn_str rt AttributeError, w)
      | Some create \<Rightarrow>
          (let request = groq_request SYSTEM_CONTENT_V2 prompt mdl (7 / 10) 500;
               w1 = log_call (ChatCreate request) w
           in case and_then (create request) (\<lambda>completion.
                   and_then (py_attr completion (py ''choices'')) (\<lambda>choices.
                   and_then (py_item0 choices) (\<lambda>choice.
                   and_then (py_attr choice (py ''message'')) (\<lambda>message.
                   and_then (py_attr message (py ''content'')) (\<lambda>text.
                   py_strip_val text))))) of
                Inl e \<Rightarrow> (ERROR_GENERATING_V2 @ exn_str rt e, w1)
              | Inr text \<Rightarrow> (text, w1)))"

text \<open>
  The body of the loop of the second \<open>rag_query\<close> (lines 446 to 453): the document
  appended to \<open>top_docs\<close> for one result, if any, after the print of its title and
  score.
\<close>

definition top_doc :: "runtime \<Rightarrow> pyval \<Rightarrow> exn + py_str option" where
  "top_doc rt result =
     and_then (py_attr result (py ''metadata'')) (\<lambda>md.
     let metadata = py_or md (PDict []) in
     and_then (py_get metadata (py ''title'') (PStr (py ''Information''))) (\<lambda>title.
     and_then (py_get metadata (py ''content'') (PStr [])) (\<lambda>content.
     and_then (py_attr result (py ''score'')) (\<lambda>score.
     and_then (format_3f rt score) (\<lambda>relevance.
     and_then (py_print rt (py '' Found: '' @ py_format rt title @ py '' (Relevance: ''
                 @ relevance @ py '')'')) (\<lambda>u.
     Inr (if truthy content
          then Some (py_format rt title @ py '': '' @ py_format rt content)
          else None)))))))"

fun top_docs :: "runtime \<Rightarrow> pyval list \<Rightarrow> exn + py_str list" where
  "top_docs rt [] = Inr []"
| "top_docs rt (r # rs) =
     and_then (top_doc rt r) (\<lambda>d. and_then (top_docs rt rs) (\<lambda>ds.
       Inr (case d of None \<Rightarrow> ds | Some l \<Rightarrow> l # ds)))"

definition build_prompt_v2 :: "py_str \<Rightarrow> py_str \<Rightarrow> py_str" where
  "build_prompt_v2 context question =
     py ''Based on the following information about yourself, answer the question.\<newline>Speak in first person as if you are describing your own background.\<newline>\<newline>Your Information:\<newline>''
     @ context @ py ''\<newline>\<newline>Question: '' @ question
     @ py ''\<newline>\<newline>Provide a helpful, professional response:''"

definition NO_INFORMATION_V2 :: py_str where
  "NO_INFORMATION_V2 = py ''I don'' @ [39] @ py ''t have specific information about that topic.''"

definition NO_DETAILS_V2 :: py_str where
  "NO_DETAILS_V2 = py ''I found some information but couldn'' @ [39] @ py ''t extract details.''"

definition ERROR_QUERY_V2 :: py_str where
  "ERROR_QUERY_V2 = py '' Error during query: ''"

text \<open>
  The second \<open>rag_query\<close>: everything is inside one \<open>try\<close>, whose handler returns the
  text of the exception after its marker.
\<close>

definition rag_query_v2 ::
  "runtime \<Rightarrow> index option \<Rightarrow> groq option \<Rightarrow> py_str \<Rightarrow> world \<Rightarrow> py_str \<times> world" where
  "rag_query_v2 rt index groq_client question w =
     (case query_vectors_v2 rt index question 3 w of
        (Inl e, w1) \<Rightarrow> (ERROR_QUERY_V2 @ exn_str rt e, w1)
      | (Inr results, w1) \<Rightarrow>
          (if \<not> truthy results then (NO_INFORMATION_V2, w1)
           else
             (case py_len results of
                Inl e \<Rightarrow> (ERROR_QUERY_V2 @ exn_str rt e, w1)
              | Inr n \<Rightarrow>
                  (if n = 0 then (NO_INFORMATION_V2, w1)
                   else
                     (case and_then
                             (py_print rt (py ''\<newline> Searching your professional profile...''))
                             (\<lambda>u. and_then (py_iter results) (top_docs rt)) of
                        Inl e \<Rightarrow> (ERROR_QUERY_V2 @ exn_str rt e, w1)
                      | Inr docs \<Rightarrow>
                          (if docs = [] then (NO_DETAILS_V2, w1)
                           else
                             (case py_print rt (py '' Generating personalized response...\<newline>'') of
                                Inl e \<Rightarrow> (ERROR_QUERY_V2 @ exn_str rt e, w1)
                              | Inr u \<Rightarrow>
                                  generate_response_with_groq_v2 rt groq_client
                                    (build_prompt_v2 (str_join (py ''\<newline>\<newline>'') docs) question)
                                    DEFAULT_MODEL_V2 w1)))))))"

section \<open>embed\_simple.py and test\_rag.py: the ingestion-side embedders\<close>

text \<open>
  \<open>create_embedding\<close> of embed\_simple.py: pad when shorter than 1536, then slice
  \<open>[:1536]\<close>. The model is loaded at module level; an exception of the encoder is not
  caught here.
\<close>

definition create_embedding :: "encoder \<Rightarrow> py_str \<Rightarrow> exn + real list" where
  "create_embedding m text =
     (case m text of
        Inl e \<Rightarrow> Inl e
      | Inr emb \<Rightarrow>
          (let emb1 = (if length emb < 1536 then emb @ replicate (1536 - length emb) 0 else emb)
           in Inr (take 1536 emb1)))"

text \<open>
  The query embedding that \<open>query_digital_twin\<close> of test\_rag.py computes inline
  before it queries the index (lines 36 to 42).
\<close>

definition query_digital_twin_embedding :: "encoder \<Rightarrow> py_str \<Rightarrow> exn + real list" where
  "query_digital_twin_embedding m question =
     (case m question of
        Inl e \<Rightarrow> Inl e
      | Inr query_embedding \<Rightarrow>
          (let query_embedding1 =
                 (if length query_embedding < 1536
                  then query_embedding @ replicate (1536 - length query_embedding) 0
                  else query_embedding)
           in Inr (take 1536 query_embedding1)))"

section \<open>Observing the calls, and collaborators to run the program on\<close>

text \<open>The calls to the language model among the calls a state has logged.\<close>

fun is_chat :: "call \<Rightarrow> bool" where
  "is_chat (ChatCreate request) = True"
| "is_chat _ = False"

definition chat_calls :: "world \<Rightarrow> call list" where
  "chat_calls w = filter is_chat (calls w)"

text \<open>
  Mock collaborators: a standard output that has every character and one that has
  ASCII only, encoders of native width 384 and 2048, a process whose model is loaded, an
  index that answers every query with a fixed response, one that raises, and a
  language model that echoes the user message (as an object, as a mapping, as a bare
  string).
\<close>

definition plain_runtime :: runtime where
  "plain_runtime =
     \<lparr>str_of = (\<lambda>v. py ''<value>''), message_of = (\<lambda>e. py ''<error>''),
      float_3f = (\<lambda>x. py ''<float>''), encodable = (\<lambda>c. True)\<rparr>"


definition mini_encoder :: encoder where
  "mini_encoder t = Inr (replicate 384 1)"

definition wide_encoder :: encoder where
  "wide_encoder t = Inr (replicate 2048 1)"

definition ready :: world where
  "ready = \<lparr>embedding_model = Some mini_encoder, calls = []\<rparr>"

definition mini_vector :: "real list" where
  "mini_vector = replicate 384 1 @ replicate 1152 0"

definition index_returning :: "pyval \<Rightarrow> index" where
  "index_returning res q k = Inr res"

definition failing_index :: index where
  "failing_index q k = Inl (BackendError (py ''connection refused''))"

definition user_message :: "chat_request \<Rightarrow> py_str" where
  "user_message request = snd (last (messages request))"

definition echo_client :: groq where
  "echo_client request =
     Inr (PObj [(py ''choices'',
            PList [PObj [(py ''message'', PObj [(py ''content'', PStr (user_message request))])]])])"

definition echo_mapping_client :: groq where
  "echo_mapping_client request =
     Inr (PDict [(py ''choices'',
            PList [PDict [(py ''message'', PDict [(py ''content'', PStr (user_message request))])]])])"

definition echo_string_client :: groq where
  "echo_string_client request = Inr (PStr (user_message request))"

definition DEFAULT_MODEL :: py_str where
  "DEFAULT_MODEL = py ''llama-3.1-8b-instant''"


definition bare_result :: pyval where
  "bare_result =
     PObj [(py ''id'', PStr (py ''c1'')), (py ''score'', PFloat (9 / 10)), (py ''metadata'', PNone)]"

definition zero_score_object :: pyval where
  "zero_score_object =
     PObj [(py ''id'', PStr (py ''c1'')), (py ''score'', PFloat 0),
           (py ''metadata'', PDict [(py ''content'', PStr (py ''x''))])]"

definition zero_score_mapping :: pyval where
  "zero_score_mapping =
     PDict [(py ''id'', PStr (py ''c1'')), (py ''score'', PFloat 0),
            (py ''metadata'', PDict [(py ''content'', PStr (py ''x''))])]"


text \<open>
  A chunk of the profile document, and a vector store that holds upserted entries: it
  answers a query with its first \<open>top_k\<close> entries, each as an object with the id, a
  score and the stored metadata, which is what \<open>include_metadata=True\<close> asks for. The
  text of an entry is not part of a result.
\<close>

definition skills_chunk :: pyval where
  "skills_chunk =
     PDict [(py ''id'', PStr (py ''c1'')), (py ''title'', PStr (py ''Skills'')),
            (py ''content'', PStr (py ''Python, Go''))]"

definition result_of_entry :: "py_str \<times> pyval \<times> pyval \<Rightarrow> pyval" where
  "result_of_entry entry =
     PObj [(py ''id'', PStr (fst entry)), (py ''score'', PFloat (9 / 10)),
           (py ''metadata'', snd (snd entry))]"

definition store_holding :: "(py_str \<times> pyval \<times> pyval) list \<Rightarrow> index" where
  "store_holding entries q k = Inr (PList (map result_of_entry (take (nat k) entries)))"

section \<open>What a context line is made of\<close>




section \<open>Properties\<close>

subsection \<open>Evaluation and the log of calls\<close>

lemmas run_defs = rag_query_def query_vectors_def embed_text_def get_embedding_model_def
  query_vectors_try_def select_hits_def normalize_hit_def item_score_def item_metadata_def
  and_then_def or_else_def py_or_def get_if_dict_def dict_get_def log_call_def print_then_def
  ready_def mini_encoder_def mini_vector_def index_returning_def failing_index_def

lemmas groq_defs = generate_response_with_groq_def generate_response_with_groq_v2_def
  completion_text_def and_then_def

lemma py_print_all: "\<forall>c. encodable rt c \<Longrightarrow> py_print rt text = Inr ()"
  by (simp add: py_print_def list_all_iff)

lemma py_print_plain [simp]: "py_print plain_runtime text = Inr ()"
  by (simp add: py_print_all plain_runtime_def)

lemma chat_calls_log [simp]:
  "chat_calls (log_call c w) = (if is_chat c then chat_calls w @ [c] else chat_calls w)"
  by (simp add: chat_calls_def log_call_def)

lemma chat_calls_model [simp]: "chat_calls (w\<lparr>embedding_model := m\<rparr>) = chat_calls w"
  by (simp add: chat_calls_def)

lemma print_then_state [simp]: "snd (print_then rt text v w) = w"
  by (simp add: print_then_def split: sum.splits)

lemma get_embedding_model_chat: "chat_calls (snd (get_embedding_model rt ST w)) = chat_calls w"
  by (simp add: get_embedding_model_def Let_def split: option.splits sum.splits)

lemma embed_text_chat: "chat_calls (snd (embed_text rt ST t w)) = chat_calls w"
  using get_embedding_model_chat [of rt ST w]
  by (auto simp: embed_text_def Let_def split: prod.splits option.splits sum.splits)

lemma query_vectors_chat: "chat_calls (snd (query_vectors rt ST index q k w)) = chat_calls w"
  using embed_text_chat [of rt ST q w]
  by (auto simp: query_vectors_def Let_def split: prod.splits option.splits sum.splits)


lemma generate_chat:
  "chat_calls (snd (generate_response_with_groq rt (Some create) prompt mdl temp mt w))
     = chat_calls w @ [ChatCreate (groq_request SYSTEM_CONTENT prompt mdl temp mt)]"
  by (simp add: generate_response_with_groq_def Let_def split: sum.splits)

lemma chat_calls_ready: "chat_calls ready = []"
  by (simp add: chat_calls_def ready_def)

lemma embed_ready:
  "embed_text rt None q ready = (Inr (Some mini_vector), log_call (Encode q) ready)"
  by (simp add: embed_text_def get_embedding_model_def ready_def mini_encoder_def mini_vector_def)




subsection \<open>Strings\<close>



lemma py_strip_prefix:
  "dropWhile py_isspace s = py_strip s @ rev (takeWhile py_isspace (rev (dropWhile py_isspace s)))"
  unfolding py_strip_def by (metis rev_append rev_rev_ident takeWhile_dropWhile_id)

text \<open>What \<open>strip\<close> returns neither starts nor ends with white space.\<close>

lemma py_strip_trimmed:
  assumes "py_strip s \<noteq> []"
  shows "\<not> py_isspace (hd (py_strip s)) \<and> \<not> py_isspace (last (py_strip s))"
proof
  have ne: "dropWhile py_isspace s \<noteq> []"
  proof
    assume empty: "dropWhile py_isspace s = []"
    have "py_strip s = []" unfolding py_strip_def empty by simp
    with assms show False by simp
  qed
  have "hd (dropWhile py_isspace s) = hd (py_strip s)"
    using py_strip_prefix [of s] assms by (metis hd_append2)
  then show "\<not> py_isspace (hd (py_strip s))"
    using hd_dropWhile [OF ne] by simp
next
  have ne: "dropWhile py_isspace (rev (dropWhile py_isspace s)) \<noteq> []"
    using assms by (simp add: py_strip_def)
  have "last (py_strip s) = hd (dropWhile py_isspace (rev (dropWhile py_isspace s)))"
    using ne by (simp add: py_strip_def last_rev)
  then show "\<not> py_isspace (last (py_strip s))"
    using hd_dropWhile [OF ne] by simp
qed

subsection \<open>The embedders\<close>

text \<open>
  With a model loaded that returns an embedding, \<open>embed_text\<close> returns it padded with
  zeros when it is shorter than 1536, and as it is otherwise.
\<close>

lemma embed_text_pads:
  assumes "embedding_model w = Some m" and "m t = Inr emb"
  shows "fst (embed_text rt ST t w)
           = Inr (Some (if length emb < 1536 then emb @ replicate (1536 - length emb) 0 else emb))"
  using assms by (simp add: embed_text_def get_embedding_model_def)

text \<open>
  C1. The claim is that \<open>embed_text\<close> returns exactly 1536 values for every native
  width, truncating a wider embedding. With a model of native width 2048 already
  loaded, \<open>embed_text\<close> returns all 2048 values: it pads but never truncates.
\<close>

theorem embed_text_width_2048:
  "fst (embed_text rt None (py ''q'') \<lparr>embedding_model = Some wide_encoder, calls = []\<rparr>)
     = Inr (Some (replicate 2048 1))
   \<and> length (replicate 2048 (1 :: real)) = 2048"
  by (simp add: embed_text_def get_embedding_model_def wide_encoder_def log_call_def)

text \<open>
  C10. Whenever the encoder returns an embedding, of any width, \<open>create_embedding\<close>
  and the inline query embedding of test\_rag.py return exactly 1536 values: the
  embedding followed by zeros when it is shorter than 1536, its first 1536 values
  otherwise.
\<close>

theorem ingestion_embedders_fixed_dimension:
  assumes "m text = Inr emb"
  shows "\<exists>v. create_embedding m text = Inr v \<and> query_digital_twin_embedding m text = Inr v
           \<and> length v = 1536
           \<and> v = (if length emb < 1536 then emb @ replicate (1536 - length emb) 0
                  else take 1536 emb)"
  using assms by (simp add: create_embedding_def query_digital_twin_embedding_def)

theorem ingestion_embedders_fixed_dimension_witness:
  "create_embedding wide_encoder (py ''q'') = Inr (replicate 1536 1)
   \<and> query_digital_twin_embedding wide_encoder (py ''q'') = Inr (replicate 1536 1)
   \<and> create_embedding mini_encoder (py ''q'') = Inr (replicate 384 1 @ replicate 1152 0)
   \<and> query_digital_twin_embedding mini_encoder (py ''q'') = Inr (replicate 384 1 @ replicate 1152 0)"
  using ingestion_embedders_fixed_dimension [of wide_encoder "py ''q''" "replicate 2048 1"]
        ingestion_embedders_fixed_dimension [of mini_encoder "py ''q''" "replicate 384 1"]
  by (simp add: wide_encoder_def mini_encoder_def)

subsection \<open>The vector-store gateway\<close>

text \<open>
  The three shapes of the response select the same sequence, and an item given as an
  object and as a mapping is normalized alike as long as its score is true or None.
\<close>

lemma select_hits_results: "select_hits (PDict [(py ''results'', PList xs)]) = PList xs"
  by (cases xs) (simp_all add: select_hits_def dict_get_def py_or_def py_def)

lemma select_hits_matches: "select_hits (PDict [(py ''matches'', PList xs)]) = PList xs"
  by (cases xs) (simp_all add: select_hits_def dict_get_def py_or_def py_def)

lemma normalize_hit_access_style:
  assumes "truthy s \<or> s = PNone"
  shows "normalize_hit (PObj [(py ''score'', s), (py ''metadata'', m)])
           = normalize_hit (PDict [(py ''score'', s), (py ''metadata'', m)])"
  using assms
  by (auto simp: normalize_hit_def item_score_def item_metadata_def get_if_dict_def dict_get_def
        py_or_def py_def)

text \<open>
  C4. The claim is that a mapping with \<open>results\<close>, a mapping with \<open>matches\<close>, a bare
  sequence and a sequence of attribute-style objects carrying the same data are
  normalized to the same hits, the score being extracted whatever the access style.
  For one result of score 0.0, metadata \<open>{'content': 'x'}\<close>: given as an attribute-style
  object its hit has score None, given as a mapping its hit has score 0.0. The
  attribute read \<open>getattr(h, 'score', None)\<close> yields 0.0, which is false, so the
  \<open>or\<close> goes on to the mapping access, which is None for an object.
\<close>

theorem zero_score_depends_on_access_style:
  "fst (query_vectors plain_runtime None (Some (index_returning (PList [zero_score_object])))
          (py ''q'') 3 ready)
     = Inr [\<lparr>hit_score = PNone, hit_metadata = PDict [(py ''content'', PStr (py ''x''))],
             hit_text = PStr (py ''x'')\<rparr>]
   \<and> fst (query_vectors plain_runtime None (Some (index_returning (PList [zero_score_mapping])))
          (py ''q'') 3 ready)
     = Inr [\<lparr>hit_score = PFloat 0, hit_metadata = PDict [(py ''content'', PStr (py ''x''))],
             hit_text = PStr (py ''x'')\<rparr>]"
  by (simp add: run_defs zero_score_object_def zero_score_mapping_def py_def)






subsection \<open>The generator\<close>

text \<open>
  The first \<open>generate_response_with_groq\<close> returns a string in every case. Without a
  client, when the call to the language model raises and when picking the completion
  apart raises, the string starts with the cross mark, followed by the text of the
  exception in the last two cases. When the call returns an object with
  \<open>choices[0].message.content\<close>, or a mapping with these nested keys, holding a string,
  the result is that string stripped; for a completion that neither has \<open>choices\<close> nor
  is a mapping it is \<open>str()\<close> of the completion, stripped.
\<close>

lemma generate_response_with_groq_answers:
  "fst (generate_response_with_groq rt None prompt mdl temp mt w)
     = 10060 # py '' Groq client not initialized''
   \<and> (create (groq_request SYSTEM_CONTENT prompt mdl temp mt) = Inl e
        \<longrightarrow> fst (generate_response_with_groq rt (Some create) prompt mdl temp mt w)
              = 10060 # py '' Error generating response: '' @ exn_str rt e)
   \<and> (create (groq_request SYSTEM_CONTENT prompt mdl temp mt) = Inr c \<and> completion_text rt c = Inl e
        \<longrightarrow> fst (generate_response_with_groq rt (Some create) prompt mdl temp mt w)
              = 10060 # py '' Error generating response: '' @ exn_str rt e)
   \<and> (create (groq_request SYSTEM_CONTENT prompt mdl temp mt) = Inr c
        \<and> py_attr c (py ''choices'') = Inr choices \<and> py_item0 choices = Inr choice
        \<and> py_attr choice (py ''message'') = Inr message
        \<and> py_attr message (py ''content'') = Inr (PStr s)
        \<longrightarrow> fst (generate_response_with_groq rt (Some create) prompt mdl temp mt w) = py_strip s)
   \<and> (create (groq_request SYSTEM_CONTENT prompt mdl temp mt) = Inr (PDict kvs)
        \<and> map_of kvs (py ''choices'') = Some choices \<and> py_item0 choices = Inr (PDict ckvs)
        \<and> map_of ckvs (py ''message'') = Some (PDict mkvs)
        \<and> map_of mkvs (py ''content'') = Some (PStr s)
        \<longrightarrow> fst (generate_response_with_groq rt (Some create) prompt mdl temp mt w) = py_strip s)
   \<and> (create (groq_request SYSTEM_CONTENT prompt mdl temp mt) = Inr c
        \<and> \<not> py_hasattr c (py ''choices'') \<and> \<not> is_dict c
        \<longrightarrow> fst (generate_response_with_groq rt (Some create) prompt mdl temp mt w)
              = py_strip (py_format rt c))"
proof (intro conjI impI)
  show "fst (generate_response_with_groq rt None prompt mdl temp mt w)
          = 10060 # py '' Groq client not initialized''"
    by (simp add: generate_response_with_groq_def CROSS_def)
next
  assume "create (groq_request SYSTEM_CONTENT prompt mdl temp mt) = Inr c
        \<and> py_attr c (py ''choices'') = Inr choices \<and> py_item0 choices = Inr choice
        \<and> py_attr choice (py ''message'') = Inr message
        \<and> py_attr message (py ''content'') = Inr (PStr s)"
  moreover from this have "py_hasattr c (py ''choices'')"
    by (cases c) (auto split: option.splits)
  ultimately show "fst (generate_response_with_groq rt (Some create) prompt mdl temp mt w) = py_strip s"
    by (simp add: groq_defs)
next
  assume "create (groq_request SYSTEM_CONTENT prompt mdl temp mt) = Inr (PDict kvs)
        \<and> map_of kvs (py ''choices'') = Some choices \<and> py_item0 choices = Inr (PDict ckvs)
        \<and> map_of ckvs (py ''message'') = Some (PDict mkvs)
        \<and> map_of mkvs (py ''content'') = Some (PStr s)"
  then show "fst (generate_response_with_groq rt (Some create) prompt mdl temp mt w) = py_strip s"
    by (simp add: groq_defs)
qed (simp_all add: groq_defs ERROR_GENERATING_def CROSS_def)

text \<open>
  C7. The claim is that \<open>generate_response_with_groq\<close> tolerates a completion that is a
  plain mapping with the nested keys, and stringifies one of neither shape. The
  second definition of the function (lines 408 to 430) reads \<open>completion.choices\<close> and
  nothing else: for a mapping that holds the text \<open>" hi "\<close>, and for that text as a bare
  string, it returns its error string, where the first definition returns \<open>"hi"\<close>.
\<close>

theorem second_generator_rejects_mapping:
  "fst (generate_response_with_groq_v2 plain_runtime (Some echo_mapping_client) (py '' hi '')
          DEFAULT_MODEL_V2 ready) = py '' Error generating response: <error>''
   \<and> fst (generate_response_with_groq_v2 plain_runtime (Some echo_string_client) (py '' hi '')
          DEFAULT_MODEL_V2 ready) = py '' Error generating response: <error>''
   \<and> fst (generate_response_with_groq plain_runtime (Some echo_mapping_client) (py '' hi '')
          DEFAULT_MODEL (2 / 10) 400 ready) = py ''hi''
   \<and> fst (generate_response_with_groq plain_runtime (Some echo_string_client) (py '' hi '')
          DEFAULT_MODEL (2 / 10) 400 ready) = py ''hi''"
proof -
  have stripped: "py_strip (py '' hi '') = py ''hi''"
    by (simp add: py_strip_def py_isspace_def py_def)
  have user: "user_message (groq_request sc (py '' hi '') mdl temp mt) = py '' hi ''" for sc mdl temp mt
    by (simp add: user_message_def groq_request_def)
  have message: "exn_str plain_runtime AttributeError = py ''<error>''"
    by (simp add: exn_str_def plain_runtime_def)
  show ?thesis
    by (simp add: groq_defs echo_mapping_client_def echo_string_client_def user stripped message
          ERROR_GENERATING_V2_def py_format_def)
       (simp add: py_def)
qed

subsection \<open>The pipeline\<close>

text \<open>
  C5, as amended. For the empty question \<open>rag_query\<close> returns "Please provide a
  question." and leaves the state as it was: no model is loaded, nothing is encoded,
  the index is not queried and the language model is not called.
\<close>

theorem empty_question_short_circuits:
  "rag_query rt ST dm index client [] k w = (Inr PLEASE_PROVIDE, w)"
  by (simp add: rag_query_def)

text \<open>
  The claim C5 as stated also covers the questions made of white space only. The guard
  is \<open>if not question\<close>, which a question of two spaces passes: it is encoded and sent
  to the index, and the answer is the one for zero hits.
\<close>

theorem blank_question_is_retrieved:
  "fst (rag_query plain_runtime None DEFAULT_MODEL (Some (index_returning (PList [])))
          (Some echo_client) (py ''  '') 3 ready) = Inr NOT_FOUND
   \<and> calls (snd (rag_query plain_runtime None DEFAULT_MODEL (Some (index_returning (PList [])))
          (Some echo_client) (py ''  '') 3 ready))
       = [Encode (py ''  ''), Query (ByVector mini_vector) 3]"
  by (simp add: run_defs py_def)



text \<open>
  C3. The claim is that a question whose retrieval returns only hits with empty
  resolved text gets a canned answer without a call to the language model. For a
  response of one result stored without metadata, \<open>rag_query\<close> calls the language model
  with a prompt whose context is empty; the second program's \<open>rag_query\<close>, on the same
  response, returns its canned answer after the query alone.
\<close>

theorem empty_context_is_sent_to_the_model:
  "chat_calls (snd (rag_query plain_runtime None DEFAULT_MODEL
       (Some (index_returning (PList [bare_result]))) (Some echo_client) (py ''Who are you?'') 3 ready))
     = [ChatCreate (groq_request SYSTEM_CONTENT (build_prompt [] (py ''Who are you?''))
          DEFAULT_MODEL (2 / 10) 400)]
   \<and> rag_query_v2 plain_runtime (Some (index_returning (PList [bare_result]))) (Some echo_client)
        (py ''Who are you?'') ready
     = (NO_DETAILS_V2, ready\<lparr>calls := [Query (ByData (py ''Who are you?'')) 3]\<rparr>)"
  by (simp add: run_defs bare_result_def context_line_def py_format_def chat_calls_def Let_def
        generate_response_with_groq_def rag_query_v2_def query_vectors_v2_def top_doc_def py_def
      split: sum.splits)











text \<open>
  For a question that is not empty and hits that assemble to a context block, the one
  call that \<open>rag_query\<close> adds to the language model has two messages: the persona as
  the system message and, as the user message, the head of the prompt, the context
  block as it is, the question as it is after "Question: ", and the instruction to say
  so when the information is not enough.
\<close>

lemma prompt_embeds_context_and_question:
  assumes "question \<noteq> []"
      and "query_vectors rt ST index question k w = (Inr hits, w1)"
      and "hits \<noteq> []"
      and "py_print rt (129504 # py '' Retrieved contexts:'') = Inr ()"
      and "and_then (context_lines rt hits) (py_join (py ''\<newline>\<newline>'')) = Inr context_block"
  shows "chat_calls (snd (rag_query rt ST dm index (Some create) question k w))
           = chat_calls w @
             [ChatCreate
               \<lparr>model = dm,
                messages =
                  [(py ''system'', py ''You are the digital twin of the user. Answer in first person and only use provided context.''),
                   (py ''user'',
                    py ''Based on the information below from my profile, answer the question in first person.\<newline>\<newline>Context:\<newline>''
                    @ context_block @ py ''\<newline>\<newline>Question: '' @ question
                    @ py ''\<newline>\<newline>If the context does not contain enough detail, say you don''
                    @ [39] @ py ''t have enough information. Keep the answer concise and professional.'')],
                temperature = 2 / 10, max_tokens = 400\<rparr>]"
proof -
  have run: "rag_query rt ST dm index (Some create) question k w
           = (Inr (fst (generate_response_with_groq rt (Some create)
                          (build_prompt context_block question) dm (2 / 10) 400 w1)),
              snd (generate_response_with_groq rt (Some create)
                          (build_prompt context_block question) dm (2 / 10) 400 w1))"
    using assms by (simp add: rag_query_def BRAIN_def and_then_def split: prod.splits)
  have "chat_calls w1 = chat_calls w"
    using query_vectors_chat [of rt ST index question k w] assms(2) by simp
  then show ?thesis
    using run
    by (simp add: generate_chat build_prompt_def groq_request_def SYSTEM_CONTENT_def
          PROMPT_HEAD_def PROMPT_QUESTION_def PROMPT_TAIL_def)
qed

text \<open>
  C9. The claim is that for the indexed chunk with id c1, title Skills and content
  "Python, Go", the prompt for "What are your skills?" contains "Skills: Python, Go".
  The ingestion of the first program upserts the entry with the content in its text
  and the title alone in its metadata. A query returns metadata, so the text of the
  hit falls back on the title, and the prompt sent to the language model has the
  context "Skills: Skills".
\<close>

theorem own_ingestion_loses_content:
  "content_vectors plain_runtime (PDict [(py ''content_chunks'', PList [skills_chunk])])
     = Inr [(py ''c1'', PStr (py ''Skills: Python, Go''), PDict [(py ''title'', PStr (py ''Skills''))])]
   \<and> chat_calls (snd (rag_query plain_runtime None DEFAULT_MODEL
        (Some (store_holding
           [(py ''c1'', PStr (py ''Skills: Python, Go''), PDict [(py ''title'', PStr (py ''Skills''))])]))
        (Some echo_client) (py ''What are your skills?'') 3 ready))
     = [ChatCreate
         \<lparr>model = py ''llama-3.1-8b-instant'',
          messages =
            [(py ''system'', py ''You are the digital twin of the user. Answer in first person and only use provided context.''),
             (py ''user'',
              py ''Based on the information below from my profile, answer the question in first person.\<newline>\<newline>Context:\<newline>Skills: Skills\<newline>\<newline>Question: What are your skills?\<newline>\<newline>If the context does not contain enough detail, say you don''
              @ [39] @ py ''t have enough information. Keep the answer concise and professional.'')],
          temperature = 2 / 10, max_tokens = 400\<rparr>]"
proof
  show "content_vectors plain_runtime (PDict [(py ''content_chunks'', PList [skills_chunk])])
     = Inr [(py ''c1'', PStr (py ''Skills: Python, Go''), PDict [(py ''title'', PStr (py ''Skills''))])]"
    by (simp add: content_vectors_def chunk_vector_def skills_chunk_def and_then_def or_else_def
          py_format_def py_def)
next
  have question: "py ''What are your skills?'' \<noteq> []"
    by (simp add: py_def)
  have retrieved: "query_vectors plain_runtime None
        (Some (store_holding
           [(py ''c1'', PStr (py ''Skills: Python, Go''), PDict [(py ''title'', PStr (py ''Skills''))])]))
        (py ''What are your skills?'') 3 ready
      = (Inr [\<lparr>hit_score = PFloat (9 / 10), hit_metadata = PDict [(py ''title'', PStr (py ''Skills''))],
               hit_text = PStr (py ''Skills'')\<rparr>],
         log_call (Query (ByVector mini_vector) 3) (log_call (Encode (py ''What are your skills?'')) ready))"
    by (simp add: query_vectors_def embed_ready query_vectors_try_def store_holding_def
          result_of_entry_def select_hits_def normalize_hit_def item_score_def item_metadata_def
          get_if_dict_def dict_get_def and_then_def or_else_def py_or_def py_def)
  have block: "and_then (context_lines plain_runtime
        [\<lparr>hit_score = PFloat (9 / 10), hit_metadata = PDict [(py ''title'', PStr (py ''Skills''))],
          hit_text = PStr (py ''Skills'')\<rparr>]) (py_join (py ''\<newline>\<newline>''))
      = Inr (py ''Skills: Skills'')"
    by (simp add: context_line_def and_then_def or_else_def py_or_def py_format_def py_def)
  have "chat_calls (log_call (Query (ByVector mini_vector) 3)
          (log_call (Encode (py ''What are your skills?'')) ready)) = []"
    by (simp add: chat_calls_ready)
  then have "chat_calls ready = []"
    by (simp add: chat_calls_ready)
  with prompt_embeds_context_and_question
         [OF question retrieved _ py_print_plain block, of DEFAULT_MODEL echo_client]
  show "chat_calls (snd (rag_query plain_runtime None DEFAULT_MODEL
        (Some (store_holding
           [(py ''c1'', PStr (py ''Skills: Python, Go''), PDict [(py ''title'', PStr (py ''Skills''))])]))
        (Some echo_client) (py ''What are your skills?'') 3 ready))
     = [ChatCreate
         \<lparr>model = py ''llama-3.1-8b-instant'',
          messages =
            [(py ''system'', py ''You are the digital twin of the user. Answer in first person and only use provided context.''),
             (py ''user'',
              py ''Based on the information below from my profile, answer the question in first person.\<newline>\<newline>Context:\<newline>Skills: Skills\<newline>\<newline>Question: What are your skills?\<newline>\<newline>If the context does not contain enough detail, say you don''
              @ [39] @ py ''t have enough information. Keep the answer concise and professional.'')],
          temperature = 2 / 10, max_tokens = 400\<rparr>]"
    by (simp add: DEFAULT_MODEL_def py_def)
qed

end
